theory Spec2Isabelle
  imports Complex_Main "HOL-Library.Sublist" "HOL-Library.Log_Nat"
begin

section \<open>Text operations of the Python runtime used by \<open>CalculatorEngine.evaluate\<close>\<close>

text \<open>
  Python strings are modelled as \<^typ>\<open>string\<close>, read as UTF-8 text. The glyph for pi is
  therefore the two bytes \<open>0xCF 0x80\<close>. \<open>str.lower\<close> is modelled on the ASCII letters
  and leaves every other byte as it is.
\<close>

definition lower_char :: "char \<Rightarrow> char" where
  "lower_char c =
     (case map_of (zip ''ABCDEFGHIJKLMNOPQRSTUVWXYZ'' ''abcdefghijklmnopqrstuvwxyz'') c of
        Some l \<Rightarrow> l
      | None \<Rightarrow> c)"

definition str_lower :: "string \<Rightarrow> string" where
  "str_lower s = map lower_char s"

text \<open>
  \<open>s.replace(old, new)\<close>: every non-overlapping occurrence of \<open>old\<close>, scanning from the
  left. With an empty \<open>old\<close> Python puts \<open>new\<close> before every character and at the end.
\<close>

fun str_replace :: "string \<Rightarrow> string \<Rightarrow> string \<Rightarrow> string" where
  "str_replace old new [] = (if old = [] then new else [])"
| "str_replace old new (c # cs) =
     (if old = [] then new @ c # str_replace old new cs
      else if prefix old (c # cs) then new @ str_replace old new (drop (length old) (c # cs))
      else c # str_replace old new cs)"

text \<open>
  \<open>re.sub(name + r'\((.*?)\)', repl + r'(\1)', s)\<close>: at the leftmost position where
  \<open>name(\<close> starts, the lazy group takes the characters up to the first closing
  parenthesis; the dot of the pattern does not match a newline, so a newline before that
  parenthesis means there is no match at this position. The scan goes on after the match.
\<close>

function re_sub_call :: "string \<Rightarrow> string \<Rightarrow> string \<Rightarrow> string" where
  "re_sub_call name repl [] = []"
| "re_sub_call name repl (c # cs) =
     (let s = c # cs; rest = drop (length name + 1) s; grp = takeWhile (\<lambda>x. x \<noteq> CHR '')'') rest
      in if prefix (name @ ''('') s \<and> length grp < length rest \<and> CHR 0x0A \<notin> set grp
         then repl @ ''('' @ grp @ '')'' @ re_sub_call name repl (drop (length grp + 1) rest)
         else c # re_sub_call name repl cs)"
  by pat_completeness auto
termination
  by (relation "measure (\<lambda>(name, repl, s). length s)") auto

section \<open>Python numbers\<close>

text \<open>
  A Python \<open>float\<close> is an IEEE-754 double: a finite value (kept as the rational it
  denotes, \<open>Finite 0\<close> being \<open>+0.0\<close>), negative zero, an infinity or a NaN.
\<close>

datatype pyfloat = Finite rat | NegZero | PosInf | NegInf | NaN

datatype pyval = PInt int | PFloat pyfloat

definition pow2 :: "int \<Rightarrow> rat" where
  "pow2 k = (if 0 \<le> k then 2 ^ nat k else 1 / 2 ^ nat (- k))"

definition pow10 :: "int \<Rightarrow> rat" where
  "pow10 k = (if 0 \<le> k then 10 ^ nat k else 1 / 10 ^ nat (- k))"

definition floor_log2 :: "rat \<Rightarrow> int" where
  "floor_log2 a =
     (let (n, d) = quotient_of a; k = bitlen n - bitlen d
      in if pow2 k \<le> a then k else k - 1)"

definition round_half_even :: "rat \<Rightarrow> int" where
  "round_half_even x =
     (let f = \<lfloor>x\<rfloor>; d = x - of_int f
      in if d < 1 / 2 then f else if 1 / 2 < d then f + 1 else if even f then f else f + 1)"

text \<open>
  Rounding of an exact result to the nearest double, ties to even: 53 bits of mantissa,
  exponents down to the subnormal \<open>2^-1074\<close>, overflow to an infinity from \<open>2^1024\<close>.
\<close>

definition round_double :: "rat \<Rightarrow> pyfloat" where
  "round_double q =
     (if q = 0 then Finite 0
      else
        let a = \<bar>q\<bar>;
            e = max (floor_log2 a - 52) (- 1074);
            r = of_int (round_half_even (a / pow2 e)) * pow2 e
        in if pow2 1024 \<le> r then (if q < 0 then NegInf else PosInf)
           else if r = 0 then (if q < 0 then NegZero else Finite 0)
           else Finite (if q < 0 then - r else r))"

definition fl_neg :: "pyfloat \<Rightarrow> pyfloat" where
  "fl_neg x =
     (case x of
        Finite q \<Rightarrow> (if q = 0 then NegZero else Finite (- q))
      | NegZero \<Rightarrow> Finite 0
      | PosInf \<Rightarrow> NegInf
      | NegInf \<Rightarrow> PosInf
      | NaN \<Rightarrow> NaN)"

definition fl_is_zero :: "pyfloat \<Rightarrow> bool" where
  "fl_is_zero x = (x = Finite 0 \<or> x = NegZero)"

definition fl_negative :: "pyfloat \<Rightarrow> bool" where
  "fl_negative x = (case x of Finite q \<Rightarrow> q < 0 | NegZero \<Rightarrow> True | NegInf \<Rightarrow> True | _ \<Rightarrow> False)"

definition fl_value :: "pyfloat \<Rightarrow> rat" where
  "fl_value x = (case x of Finite q \<Rightarrow> q | _ \<Rightarrow> 0)"

definition fl_add :: "pyfloat \<Rightarrow> pyfloat \<Rightarrow> pyfloat" where
  "fl_add x y =
     (if x = NaN \<or> y = NaN then NaN
      else if x = PosInf then (if y = NegInf then NaN else PosInf)
      else if x = NegInf then (if y = PosInf then NaN else NegInf)
      else if y = PosInf \<or> y = NegInf then y
      else if fl_is_zero x \<and> fl_is_zero y then (if x = NegZero \<and> y = NegZero then NegZero else Finite 0)
      else round_double (fl_value x + fl_value y))"

definition fl_sub :: "pyfloat \<Rightarrow> pyfloat \<Rightarrow> pyfloat" where
  "fl_sub x y = fl_add x (fl_neg y)"

definition fl_signed :: "bool \<Rightarrow> pyfloat \<Rightarrow> pyfloat" where
  "fl_signed neg x = (if neg then fl_neg x else x)"

definition fl_mul :: "pyfloat \<Rightarrow> pyfloat \<Rightarrow> pyfloat" where
  "fl_mul x y =
     (let neg = (fl_negative x \<noteq> fl_negative y);
          inf_x = (x = PosInf \<or> x = NegInf); inf_y = (y = PosInf \<or> y = NegInf)
      in if x = NaN \<or> y = NaN then NaN
         else if inf_x \<or> inf_y then
           (if fl_is_zero x \<or> fl_is_zero y then NaN else fl_signed neg PosInf)
         else if fl_is_zero x \<or> fl_is_zero y then fl_signed neg (Finite 0)
         else round_double (fl_value x * fl_value y))"

text \<open>The quotient of two floats, for a divisor that is not a zero.\<close>

definition fl_div :: "pyfloat \<Rightarrow> pyfloat \<Rightarrow> pyfloat" where
  "fl_div x y =
     (let neg = (fl_negative x \<noteq> fl_negative y);
          inf_x = (x = PosInf \<or> x = NegInf); inf_y = (y = PosInf \<or> y = NegInf)
      in if x = NaN \<or> y = NaN then NaN
         else if inf_x then (if inf_y then NaN else fl_signed neg PosInf)
         else if inf_y \<or> fl_is_zero x then fl_signed neg (Finite 0)
         else round_double (fl_value x / fl_value y))"

subsection \<open>\<open>str\<close> of a number\<close>

fun nat_str :: "nat \<Rightarrow> string" where
  "nat_str n = (if n < 10 then [''0123456789'' ! n] else nat_str (n div 10) @ [''0123456789'' ! (n mod 10)])"

declare nat_str.simps [simp del]

definition int_str :: "int \<Rightarrow> string" where
  "int_str i = (if i < 0 then ''-'' @ nat_str (nat (- i)) else nat_str (nat i))"

definition floor_log10 :: "rat \<Rightarrow> int" where
  "floor_log10 a =
     (let (n, d) = quotient_of a; k = int (length (nat_str (nat n))) - int (length (nat_str (nat d)))
      in if pow10 k \<le> a then k else k - 1)"

text \<open>
  \<open>repr\<close> of a positive double \<open>a\<close> is the shortest decimal that reads back as \<open>a\<close>, and
  of the decimals of that length the one nearest to \<open>a\<close>. \<open>candidate n a\<close> looks at the
  two decimals of \<open>n\<close> significant digits around \<open>a\<close>; the result \<open>(d, p)\<close> stands for
  \<open>d * 10^p\<close>.
\<close>

definition candidate :: "nat \<Rightarrow> rat \<Rightarrow> (int \<times> int) option" where
  "candidate n a =
     (let p = floor_log10 a - int n + 1;
          lo = \<lfloor>a / pow10 p\<rfloor>; hi = lo + 1;
          ok_lo = (round_double (of_int lo * pow10 p) = Finite a);
          ok_hi = (round_double (of_int hi * pow10 p) = Finite a)
      in if ok_lo \<and> ok_hi then
           Some (if a - of_int lo * pow10 p \<le> of_int hi * pow10 p - a then lo else hi, p)
         else if ok_lo then Some (lo, p)
         else if ok_hi then Some (hi, p)
         else None)"

fun shortest_from :: "nat list \<Rightarrow> rat \<Rightarrow> int \<times> int" where
  "shortest_from [] a = (round_half_even (a / pow10 (floor_log10 a - 16)), floor_log10 a - 16)"
| "shortest_from (n # ns) a = (case candidate n a of Some r \<Rightarrow> r | None \<Rightarrow> shortest_from ns a)"

text \<open>
  The layout of \<open>repr\<close>: \<open>ds\<close> are the significant digits and the value is
  \<open>0.ds * 10^decpt\<close>; the exponent form is used when \<open>decpt \<le> -4\<close> or \<open>decpt > 16\<close>.
\<close>

definition float_layout :: "string \<Rightarrow> int \<Rightarrow> string" where
  "float_layout ds decpt =
     (if decpt \<le> - 4 \<or> 16 < decpt then
        (let ex = decpt - 1; xs = nat_str (nat \<bar>ex\<bar>)
         in hd ds # (if tl ds = [] then [] else ''.'' @ tl ds) @ ''e''
            @ (if ex < 0 then ''-'' else ''+'') @ (if length xs < 2 then ''0'' @ xs else xs))
      else if decpt \<le> 0 then ''0.'' @ replicate (nat (- decpt)) CHR ''0'' @ ds
      else if int (length ds) \<le> decpt then ds @ replicate (nat decpt - length ds) CHR ''0'' @ ''.0''
      else take (nat decpt) ds @ ''.'' @ drop (nat decpt) ds)"

definition pos_float_str :: "rat \<Rightarrow> string" where
  "pos_float_str a =
     (let (d, p) = shortest_from [1..<18] a;
          full = nat_str (nat d);
          ds = rev (dropWhile (\<lambda>c. c = CHR ''0'') (rev full))
      in float_layout ds (int (length full) + p))"

definition float_str :: "pyfloat \<Rightarrow> string" where
  "float_str x =
     (case x of
        Finite q \<Rightarrow> (if q = 0 then ''0.0'' else if q < 0 then ''-'' @ pos_float_str (- q) else pos_float_str q)
      | NegZero \<Rightarrow> ''-0.0''
      | PosInf \<Rightarrow> ''inf''
      | NegInf \<Rightarrow> ''-inf''
      | NaN \<Rightarrow> ''nan'')"

definition py_str :: "pyval \<Rightarrow> string" where
  "py_str v = (case v of PInt i \<Rightarrow> int_str i | PFloat x \<Rightarrow> float_str x)"

text \<open>\<open>math.pi\<close> and \<open>math.e\<close> are the doubles \<open>0x400921FB54442D18\<close> and \<open>0x4005BF0A8B145769\<close>.\<close>

definition math_pi :: pyfloat where
  "math_pi = Finite (884279719003555 / 2 ^ 48)"

definition math_e :: pyfloat where
  "math_e = Finite (6121026514868073 / 2 ^ 51)"

section \<open>The builtin \<open>eval\<close> on arithmetic expressions\<close>

text \<open>
  \<open>eval(expression, {"__builtins__": None}, {"math": math})\<close> is a function of the text
  alone. It is modelled on the arithmetic fragment of Python's expression language:
  decimal integer and float literals, the operators \<open>+ - * / // % **\<close>, parentheses,
  and names, attribute references and calls as far as the syntax goes. An outcome is a
  value, an exception, or \<open>Unmodelled\<close> for a text that leaves the fragment (any other
  character, a keyword, a name that would have to be looked up, a float power); about
  such a text the model says nothing. Resource limits of the interpreter (nesting depth,
  the length of integer texts) are not part of the model.
\<close>

datatype pyexc = SyntaxError | ZeroDivisionError | OverflowError

datatype 'a outcome = Return 'a | Raise pyexc | Unmodelled

definition bind :: "'a outcome \<Rightarrow> ('a \<Rightarrow> 'b outcome) \<Rightarrow> 'b outcome" where
  "bind x f = (case x of Return a \<Rightarrow> f a | Raise e \<Rightarrow> Raise e | Unmodelled \<Rightarrow> Unmodelled)"

subsection \<open>Tokens\<close>

datatype token =
  NUMBER pyval | NAME string
  | PLUS | MINUS | STAR | SLASH | DOUBLESLASH | PERCENT | DOUBLESTAR | LPAR | RPAR | DOT

definition is_digit :: "char \<Rightarrow> bool" where
  "is_digit c = (c \<in> set ''0123456789'')"

definition is_name_start :: "char \<Rightarrow> bool" where
  "is_name_start c = (c \<in> set ''abcdefghijklmnopqrstuvwxyzABCDEFGHIJKLMNOPQRSTUVWXYZ_'')"

definition is_name_char :: "char \<Rightarrow> bool" where
  "is_name_char c = (is_name_start c \<or> is_digit c)"

text \<open>Names that are not plain identifiers to the compiler: the keywords and \<open>__debug__\<close>.\<close>

definition reserved :: "string list" where
  "reserved =
     [''False'', ''None'', ''True'', ''and'', ''as'', ''assert'', ''async'', ''await'', ''break'',
      ''class'', ''continue'', ''def'', ''del'', ''elif'', ''else'', ''except'', ''finally'', ''for'',
      ''from'', ''global'', ''if'', ''import'', ''in'', ''is'', ''lambda'', ''nonlocal'', ''not'',
      ''or'', ''pass'', ''raise'', ''return'', ''try'', ''while'', ''with'', ''yield'', ''__debug__'']"

definition digits_value :: "string \<Rightarrow> nat" where
  "digits_value ds = foldl (\<lambda>acc c. 10 * acc + (of_char c - 48)) 0 ds"

text \<open>
  A number literal at the head of \<open>s\<close>: digits, then possibly a point and more digits.
  \<open>number_length\<close> is how many characters it takes. An exponent, an imaginary suffix, an
  underscore or a radix prefix is outside the fragment; a decimal integer with a leading
  zero and a nonzero digit is a syntax error.
\<close>

definition number_length :: "string \<Rightarrow> nat" where
  "number_length s =
     (let ip = takeWhile is_digit s; r = dropWhile is_digit s
      in case r of
           c # t \<Rightarrow> (if c = CHR ''.'' then length ip + 1 + length (takeWhile is_digit t) else length ip)
         | [] \<Rightarrow> length ip)"

definition number_token :: "string \<Rightarrow> pyval outcome" where
  "number_token s =
     (let ip = takeWhile is_digit s; r = dropWhile is_digit s;
          has_point = (case r of c # _ \<Rightarrow> c = CHR ''.'' | [] \<Rightarrow> False);
          fp = (if has_point then takeWhile is_digit (tl r) else []);
          after = drop (number_length s) s
      in if (case after of c # _ \<Rightarrow> c \<in> set ''eEjJ_xXoObB'' | [] \<Rightarrow> False) then Unmodelled
         else if has_point then
           Return (PFloat (round_double (of_nat (digits_value (ip @ fp)) / 10 ^ length fp)))
         else if 1 < length ip \<and> hd ip = CHR ''0'' \<and> digits_value ip \<noteq> 0 then Raise SyntaxError
         else Return (PInt (int (digits_value ip))))"

definition cons_token :: "token \<Rightarrow> token list outcome \<Rightarrow> token list outcome" where
  "cons_token t r = bind r (\<lambda>ts. Return (t # ts))"

function tokenize :: "string \<Rightarrow> token list outcome" where
  "tokenize [] = Return []"
| "tokenize (c # cs) =
     (if c = CHR '' '' \<or> c = CHR 0x09 then tokenize cs
      else if is_digit c \<or> (c = CHR ''.'' \<and> (case cs of d # _ \<Rightarrow> is_digit d | [] \<Rightarrow> False)) then
        bind (number_token (c # cs))
          (\<lambda>v. cons_token (NUMBER v) (tokenize (drop (number_length (c # cs) - 1) cs)))
      else if is_name_start c then
        (if c # takeWhile is_name_char cs \<in> set reserved then Unmodelled
         else cons_token (NAME (c # takeWhile is_name_char cs)) (tokenize (dropWhile is_name_char cs)))
      else if c = CHR ''*'' then
        (case cs of
           d # r \<Rightarrow> (if d = CHR ''*'' then cons_token DOUBLESTAR (tokenize r) else cons_token STAR (tokenize cs))
         | [] \<Rightarrow> cons_token STAR (tokenize cs))
      else if c = CHR ''/'' then
        (case cs of
           d # r \<Rightarrow> (if d = CHR ''/'' then cons_token DOUBLESLASH (tokenize r) else cons_token SLASH (tokenize cs))
         | [] \<Rightarrow> cons_token SLASH (tokenize cs))
      else if c = CHR ''.'' then
        (if prefix ''..'' cs then Unmodelled else cons_token DOT (tokenize cs))
      else if c = CHR ''+'' then cons_token PLUS (tokenize cs)
      else if c = CHR ''-'' then cons_token MINUS (tokenize cs)
      else if c = CHR ''%'' then cons_token PERCENT (tokenize cs)
      else if c = CHR ''('' then cons_token LPAR (tokenize cs)
      else if c = CHR '')'' then cons_token RPAR (tokenize cs)
      else Unmodelled)"
  by pat_completeness auto
termination
  by (relation "measure length") (auto simp: less_Suc_eq_le length_dropWhile_le)

subsection \<open>Syntax\<close>

datatype binop = Add | Sub | Mult | Div | FloorDiv | Mod | PowOp

datatype unop = UAdd | USub

datatype expr =
  Constant pyval
  | Name string
  | BinOp expr binop expr
  | UnaryOp unop expr
  | Attribute expr string
  | Call expr "expr option"

text \<open>
  Python's grammar on these tokens, by recursive descent:
  \<^verbatim>\<open>
  sum:     sum ('+' | '-') term | term
  term:    term ('*' | '/' | '//' | '%') factor | factor
  factor:  ('+' | '-') factor | power
  power:   primary '**' factor | primary
  primary: primary '.' NAME | primary '(' [sum] ')' | atom
  atom:    NAME | NUMBER | '(' sum ')'
  \<close>
  \<open>parse_rule rec g ts\<close> parses by rule \<open>g\<close> at the head of \<open>ts\<close> and returns the tree
  with the tokens left over, calling \<open>rec\<close> for the rules below; \<open>descend n\<close> ties the knot
  with \<open>n\<close> bounding the depth of the descent, and \<open>parse\<close> starts with a bound that grows
  with the number of tokens. The empty tuple \<open>()\<close> and a starred argument
  are Python syntax outside the fragment.
\<close>

definition additive :: "token \<Rightarrow> binop option" where
  "additive t = (if t = PLUS then Some Add else if t = MINUS then Some Sub else None)"

definition multiplicative :: "token \<Rightarrow> binop option" where
  "multiplicative t =
     (if t = STAR then Some Mult else if t = SLASH then Some Div
      else if t = DOUBLESLASH then Some FloorDiv else if t = PERCENT then Some Mod else None)"

definition unary :: "token \<Rightarrow> unop option" where
  "unary t = (if t = PLUS then Some UAdd else if t = MINUS then Some USub else None)"

definition atom :: "token \<Rightarrow> expr option" where
  "atom t = (case t of NUMBER v \<Rightarrow> Some (Constant v) | NAME x \<Rightarrow> Some (Name x) | _ \<Rightarrow> None)"

definition name_of :: "token \<Rightarrow> string option" where
  "name_of t = (case t of NAME x \<Rightarrow> Some x | _ \<Rightarrow> None)"

definition expect_rpar :: "token list \<Rightarrow> token list outcome" where
  "expect_rpar ts = (case ts of [] \<Rightarrow> Raise SyntaxError | t # r \<Rightarrow> if t = RPAR then Return r else Raise SyntaxError)"

datatype rule = Sum_rule | Sum_rest expr | Term_rule | Term_rest expr | Factor_rule | Power_rule | Atom_rule | Primary_rest expr

definition parse_rule ::
  "(rule \<Rightarrow> token list \<Rightarrow> (expr \<times> token list) outcome) \<Rightarrow> rule \<Rightarrow> token list
     \<Rightarrow> (expr \<times> token list) outcome" where
  "parse_rule rec g ts =
     (case g of
        Sum_rule \<Rightarrow> bind (rec Term_rule ts) (\<lambda>(l, r). rec (Sum_rest l) r)
      | Sum_rest l \<Rightarrow>
          (case ts of
             [] \<Rightarrow> Return (l, ts)
           | t # r \<Rightarrow>
               (case additive t of
                  Some op \<Rightarrow> bind (rec Term_rule r) (\<lambda>(x, r'). rec (Sum_rest (BinOp l op x)) r')
                | None \<Rightarrow> Return (l, ts)))
      | Term_rule \<Rightarrow> bind (rec Factor_rule ts) (\<lambda>(l, r). rec (Term_rest l) r)
      | Term_rest l \<Rightarrow>
          (case ts of
             [] \<Rightarrow> Return (l, ts)
           | t # r \<Rightarrow>
               (case multiplicative t of
                  Some op \<Rightarrow> bind (rec Factor_rule r) (\<lambda>(x, r'). rec (Term_rest (BinOp l op x)) r')
                | None \<Rightarrow> Return (l, ts)))
      | Factor_rule \<Rightarrow>
          (case ts of
             [] \<Rightarrow> Raise SyntaxError
           | t # r \<Rightarrow>
               (case unary t of
                  Some op \<Rightarrow> bind (rec Factor_rule r) (\<lambda>(x, r'). Return (UnaryOp op x, r'))
                | None \<Rightarrow> rec Power_rule ts))
      | Power_rule \<Rightarrow>
          bind (rec Atom_rule ts)
            (\<lambda>(b, r). if prefix [DOUBLESTAR] r
               then bind (rec Factor_rule (tl r)) (\<lambda>(x, r'). Return (BinOp b PowOp x, r'))
               else Return (b, r))
      | Atom_rule \<Rightarrow>
          (case ts of
             [] \<Rightarrow> Raise SyntaxError
           | t # r \<Rightarrow>
               (case atom t of
                  Some a \<Rightarrow> rec (Primary_rest a) r
                | None \<Rightarrow>
                    if t \<noteq> LPAR then Raise SyntaxError
                    else if prefix [RPAR] r then Unmodelled
                    else bind (rec Sum_rule r)
                           (\<lambda>(x, r'). bind (expect_rpar r') (\<lambda>r''. rec (Primary_rest x) r''))))
      | Primary_rest b \<Rightarrow>
          (case ts of
             [] \<Rightarrow> Return (b, ts)
           | t # r \<Rightarrow>
               if t = DOT then
                 (case r of
                    [] \<Rightarrow> Raise SyntaxError
                  | u # r' \<Rightarrow>
                      (case name_of u of
                         Some x \<Rightarrow> rec (Primary_rest (Attribute b x)) r'
                       | None \<Rightarrow> Raise SyntaxError))
               else if t = LPAR then
                 (if prefix [RPAR] r then rec (Primary_rest (Call b None)) (tl r)
                  else if prefix [STAR] r \<or> prefix [DOUBLESTAR] r then Unmodelled
                  else bind (rec Sum_rule r)
                         (\<lambda>(x, r'). bind (expect_rpar r')
                            (\<lambda>r''. rec (Primary_rest (Call b (Some x))) r'')))
               else Return (b, ts)))"

primrec descend :: "nat \<Rightarrow> rule \<Rightarrow> token list \<Rightarrow> (expr \<times> token list) outcome" where
  "descend 0 g ts = Unmodelled"
| "descend (Suc n) g ts = parse_rule (descend n) g ts"

definition parse :: "token list \<Rightarrow> expr outcome" where
  "parse ts =
     bind (descend (8 * length ts + 8) Sum_rule ts)
       (\<lambda>(x, r). if r = [] then Return x else Raise SyntaxError)"

subsection \<open>Evaluation\<close>

text \<open>
  An \<open>int\<close> operand of a mixed operation is converted to a double first; an \<open>int\<close> too
  large for a double raises \<open>OverflowError\<close>.
\<close>

definition to_float :: "pyval \<Rightarrow> pyexc + pyfloat" where
  "to_float v =
     (case v of
        PFloat x \<Rightarrow> Inr x
      | PInt i \<Rightarrow>
          (let x = round_double (of_int i)
           in if x = PosInf \<or> x = NegInf then Inl OverflowError else Inr x))"

definition float_op :: "(pyfloat \<Rightarrow> pyfloat \<Rightarrow> pyfloat) \<Rightarrow> pyval \<Rightarrow> pyval \<Rightarrow> pyexc + pyval" where
  "float_op f a b =
     (case to_float a of
        Inl e \<Rightarrow> Inl e
      | Inr x \<Rightarrow> (case to_float b of Inl e \<Rightarrow> Inl e | Inr y \<Rightarrow> Inr (PFloat (f x y))))"

definition py_add :: "pyval \<Rightarrow> pyval \<Rightarrow> pyexc + pyval" where
  "py_add a b = (case (a, b) of (PInt i, PInt j) \<Rightarrow> Inr (PInt (i + j)) | _ \<Rightarrow> float_op fl_add a b)"

definition py_sub :: "pyval \<Rightarrow> pyval \<Rightarrow> pyexc + pyval" where
  "py_sub a b = (case (a, b) of (PInt i, PInt j) \<Rightarrow> Inr (PInt (i - j)) | _ \<Rightarrow> float_op fl_sub a b)"

definition py_mul :: "pyval \<Rightarrow> pyval \<Rightarrow> pyexc + pyval" where
  "py_mul a b = (case (a, b) of (PInt i, PInt j) \<Rightarrow> Inr (PInt (i * j)) | _ \<Rightarrow> float_op fl_mul a b)"

text \<open>
  True division always gives a float. Of two \<open>int\<close>s it is the correctly rounded quotient;
  otherwise both operands are converted and the doubles divided. A zero divisor raises
  \<open>ZeroDivisionError\<close>.
\<close>

definition py_truediv :: "pyval \<Rightarrow> pyval \<Rightarrow> pyexc + pyval" where
  "py_truediv a b =
     (case (a, b) of
        (PInt i, PInt j) \<Rightarrow>
          (if j = 0 then Inl ZeroDivisionError
           else if i = 0 then Inr (PFloat (if j < 0 then NegZero else Finite 0))
           else
             (let x = round_double (of_int i / of_int j)
              in if x = PosInf \<or> x = NegInf then Inl OverflowError else Inr (PFloat x)))
      | _ \<Rightarrow>
          (case to_float a of
             Inl e \<Rightarrow> Inl e
           | Inr x \<Rightarrow>
               (case to_float b of
                  Inl e \<Rightarrow> Inl e
                | Inr y \<Rightarrow> if fl_is_zero y then Inl ZeroDivisionError else Inr (PFloat (fl_div x y)))))"

definition lift :: "pyexc + 'a \<Rightarrow> 'a outcome" where
  "lift r = (case r of Inl e \<Rightarrow> Raise e | Inr v \<Rightarrow> Return v)"

text \<open>
  Floor division, remainder and power are modelled on \<open>int\<close>s (Python's \<open>//\<close> and \<open>%\<close>
  round towards minus infinity, as \<open>div\<close> and \<open>mod\<close> do); a power with a negative
  exponent is a float and outside the fragment.
\<close>

definition apply_binop :: "binop \<Rightarrow> pyval \<Rightarrow> pyval \<Rightarrow> pyval outcome" where
  "apply_binop op a b =
     (case op of
        Add \<Rightarrow> lift (py_add a b)
      | Sub \<Rightarrow> lift (py_sub a b)
      | Mult \<Rightarrow> lift (py_mul a b)
      | Div \<Rightarrow> lift (py_truediv a b)
      | FloorDiv \<Rightarrow>
          (case (a, b) of
             (PInt i, PInt j) \<Rightarrow> if j = 0 then Raise ZeroDivisionError else Return (PInt (i div j))
           | _ \<Rightarrow> Unmodelled)
      | Mod \<Rightarrow>
          (case (a, b) of
             (PInt i, PInt j) \<Rightarrow> if j = 0 then Raise ZeroDivisionError else Return (PInt (i mod j))
           | _ \<Rightarrow> Unmodelled)
      | PowOp \<Rightarrow>
          (case (a, b) of
             (PInt i, PInt j) \<Rightarrow> if 0 \<le> j then Return (PInt (i ^ nat j)) else Unmodelled
           | _ \<Rightarrow> Unmodelled))"

definition apply_unop :: "unop \<Rightarrow> pyval \<Rightarrow> pyval" where
  "apply_unop op a =
     (case op of
        UAdd \<Rightarrow> a
      | USub \<Rightarrow> (case a of PInt i \<Rightarrow> PInt (- i) | PFloat x \<Rightarrow> PFloat (fl_neg x)))"

text \<open>
  Operands are evaluated left to right, so an exception of the left operand wins. Names,
  attribute references and calls are looked up at run time and are outside the fragment.
\<close>

fun eval_expr :: "expr \<Rightarrow> pyval outcome" where
  "eval_expr (Constant v) = Return v"
| "eval_expr (BinOp l op r) = bind (eval_expr l) (\<lambda>a. bind (eval_expr r) (\<lambda>b. apply_binop op a b))"
| "eval_expr (UnaryOp op e) = bind (eval_expr e) (\<lambda>a. Return (apply_unop op a))"
| "eval_expr (Name x) = Unmodelled"
| "eval_expr (Attribute e x) = Unmodelled"
| "eval_expr (Call f a) = Unmodelled"

definition py_eval :: "string \<Rightarrow> pyval outcome" where
  "py_eval s = bind (tokenize s) (\<lambda>ts. bind (parse ts) eval_expr)"

section \<open>\<open>CalculatorEngine\<close>\<close>

record engine =
  history :: "(string \<times> pyval) list"
  memory :: pyval
  last_result :: pyval

definition init :: engine where
  "init = \<lparr>history = [], memory = PInt 0, last_result = PInt 0\<rparr>"

text \<open>
  The one exception \<open>evaluate\<close> raises, \<open>ValueError(f"Invalid expression: {str(e)}")\<close>; it
  carries the exception caught.
\<close>

datatype error = ValueError pyexc

definition pi_glyph :: string where
  "pi_glyph = [CHR 0xCF, CHR 0x80]"

text \<open>The rewriting of the expression text before \<open>eval\<close>, in the order of the source.\<close>

definition prepare :: "string \<Rightarrow> engine \<Rightarrow> string" where
  "prepare expression self =
     (let expression = str_lower expression;
          expression = str_replace pi_glyph (py_str (PFloat math_pi)) expression;
          expression = str_replace ''pi'' (py_str (PFloat math_pi)) expression;
          expression = str_replace ''e'' (py_str (PFloat math_e)) expression;
          expression = re_sub_call ''sqrt'' ''math.sqrt'' expression;
          expression = re_sub_call ''sin'' ''math.sin'' expression;
          expression = re_sub_call ''cos'' ''math.cos'' expression;
          expression = re_sub_call ''tan'' ''math.tan'' expression;
          expression = re_sub_call ''log'' ''math.log10'' expression;
          expression = re_sub_call ''ln'' ''math.log'' expression;
          expression = str_replace ''^'' ''**'' expression;
          expression = str_replace ''ans'' (py_str (last_result self)) expression;
          expression = str_replace ''m'' (py_str (memory self)) expression
      in expression)"

text \<open>
  The \<open>try\<close> block, given what \<open>eval\<close> did on the rewritten text: a result is appended to
  the history with that text and becomes \<open>last_result\<close>; an exception is raised again as
  \<open>ValueError\<close> and nothing is assigned.
\<close>

definition record_result :: "string \<Rightarrow> pyexc + pyval \<Rightarrow> engine \<Rightarrow> (error + pyval) \<times> engine" where
  "record_result expression r self =
     (case r of
        Inr result \<Rightarrow>
          (Inr result, self\<lparr>history := history self @ [(expression, result)], last_result := result\<rparr>)
      | Inl e \<Rightarrow> (Inl (ValueError e), self))"


text \<open>\<open>evaluate\<close> on the modelled fragment of \<open>eval\<close>; \<open>None\<close> where the model of \<open>eval\<close> is silent.\<close>

definition evaluate :: "string \<Rightarrow> engine \<Rightarrow> ((error + pyval) \<times> engine) option" where
  "evaluate expression self =
     (case py_eval (prepare expression self) of
        Return v \<Rightarrow> Some (record_result (prepare expression self) (Inr v) self)
      | Raise e \<Rightarrow> Some (record_result (prepare expression self) (Inl e) self)
      | Unmodelled \<Rightarrow> None)"

definition store_in_memory :: "pyval \<Rightarrow> engine \<Rightarrow> engine" where
  "store_in_memory v self = self\<lparr>memory := v\<rparr>"

text \<open>
  \<open>self.memory += value\<close> and \<open>self.memory -= value\<close> are Python's \<open>+\<close> and \<open>-\<close>; where
  the operator raises, nothing is assigned.
\<close>

definition add_to_memory :: "pyval \<Rightarrow> engine \<Rightarrow> (pyexc + unit) \<times> engine" where
  "add_to_memory v self =
     (case py_add (memory self) v of
        Inr r \<Rightarrow> (Inr (), self\<lparr>memory := r\<rparr>)
      | Inl e \<Rightarrow> (Inl e, self))"

definition subtract_from_memory :: "pyval \<Rightarrow> engine \<Rightarrow> (pyexc + unit) \<times> engine" where
  "subtract_from_memory v self =
     (case py_sub (memory self) v of
        Inr r \<Rightarrow> (Inr (), self\<lparr>memory := r\<rparr>)
      | Inl e \<Rightarrow> (Inl e, self))"

definition clear_memory :: "engine \<Rightarrow> engine" where
  "clear_memory self = self\<lparr>memory := PInt 0\<rparr>"




text \<open>
  Python's \<open>==\<close> on numbers compares the exact values, also between an \<open>int\<close> and a
  \<open>float\<close>; a NaN is equal to nothing and the two zeros are equal.
\<close>

definition fl_eq_int :: "pyfloat \<Rightarrow> int \<Rightarrow> bool" where
  "fl_eq_int x i = (case x of Finite q \<Rightarrow> q = of_int i | NegZero \<Rightarrow> i = 0 | _ \<Rightarrow> False)"

definition py_eq :: "pyval \<Rightarrow> pyval \<Rightarrow> bool" where
  "py_eq a b =
     (case (a, b) of
        (PInt i, PInt j) \<Rightarrow> i = j
      | (PInt i, PFloat y) \<Rightarrow> fl_eq_int y i
      | (PFloat x, PInt j) \<Rightarrow> fl_eq_int x j
      | (PFloat x, PFloat y) \<Rightarrow> x \<noteq> NaN \<and> y \<noteq> NaN \<and> (x = y \<or> fl_is_zero x \<and> fl_is_zero y))"


section \<open>Evaluation of the model on concrete texts\<close>

lemma descend_numeral: "descend (numeral k) g ts = parse_rule (descend (pred_numeral k)) g ts"
  by (simp add: numeral_eq_Suc)

lemmas eval_simps = py_eval_def parse_def parse_rule_def bind_def cons_token_def number_token_def
  number_length_def is_digit_def is_name_start_def is_name_char_def reserved_def digits_value_def
  additive_def multiplicative_def unary_def atom_def name_of_def expect_rpar_def
  apply_binop_def apply_unop_def lift_def py_add_def py_sub_def py_mul_def py_truediv_def
  descend_numeral

lemma eval_div0: "py_eval ''1/0'' = Raise ZeroDivisionError"
  by (simp add: eval_simps)

lemma eval_prec: "py_eval ''2 + 3 * 4'' = Return (PInt 14)"
  by (simp add: eval_simps)

lemma eval_paren: "py_eval ''(2 + 3) * 4'' = Return (PInt 20)"
  by (simp add: eval_simps)

lemma eval_pow: "py_eval ''2 ** 3 ** 2'' = Return (PInt 512)"
  by (simp add: eval_simps)

lemma eval_sqrt4: "py_eval ''0ath.sqrt(4)'' = Raise SyntaxError"
  by (simp add: eval_simps)

lemma eval_sqrt_neg: "py_eval ''0ath.sqrt(-1)'' = Raise SyntaxError"
  by (simp add: eval_simps)

lemma eval_log0: "py_eval ''0ath.log10(0)'' = Raise SyntaxError"
  by (simp add: eval_simps)

lemma eval_ln0: "py_eval ''0ath.log(0)'' = Raise SyntaxError"
  by (simp add: eval_simps)



lemma eval_22: "py_eval ''2 + 2'' = Return (PInt 4)"
  by (simp add: eval_simps)

lemma eval_40: "py_eval ''4 * 10'' = Return (PInt 40)"
  by (simp add: eval_simps)



subsection \<open>Doubles\<close>

lemma bitlen_numeral: "bitlen (numeral k) = bitlen (numeral k div 2) + 1"
  by (subst compute_bitlen) simp

lemma bitlen_1: "bitlen 1 = 1"
  by (subst compute_bitlen) (simp add: compute_bitlen)

lemma bitlen_0: "bitlen 0 = 0"
  by (simp add: compute_bitlen)

lemmas fl_simps = round_double_def floor_log2_def pow2_def round_half_even_def Let_def
  bitlen_numeral bitlen_1 bitlen_0


lemma rd_5: "round_double 5 = Finite 5"
  by (simp add: fl_simps)

lemma rd_6: "round_double 6 = Finite 6"
  by (simp add: fl_simps)


lemma nat_str_digit: "n < 10 \<Longrightarrow> nat_str n = [''0123456789'' ! n]"
  by (simp add: nat_str.simps)

lemma cand_5: "candidate (Suc 0) 5 = Some (5, 0)"
  by (simp add: candidate_def floor_log10_def pow10_def nat_str_digit rd_5 rd_6 Let_def)

lemma short_5: "shortest_from [Suc 0..<18] 5 = (5, 0)"
  by (subst upt_conv_Cons) (simp_all add: cand_5)

lemma str_5: "py_str (PFloat (Finite 5)) = ''5.0''"
  by (simp add: py_str_def float_str_def pos_float_str_def short_5 float_layout_def nat_str_digit)


lemma eval_5ath: "py_eval ''5.0ath.sqrt(4)'' = Raise SyntaxError"
  by (simp add: eval_simps rd_5)


subsection \<open>The rewriting\<close>

lemmas prepare_simps = prepare_def str_lower_def lower_char_def pi_glyph_def Let_def

lemma str_int_0: "py_str (PInt 0) = ''0''"
  by (simp add: py_str_def int_str_def nat_str_digit)

lemma str_int_4: "py_str (PInt 4) = ''4''"
  by (simp add: py_str_def int_str_def nat_str_digit)

lemma prepare_div0: "prepare ''1/0'' self = ''1/0''"
  by (simp add: prepare_simps)

lemma prepare_prec: "prepare ''2 + 3 * 4'' self = ''2 + 3 * 4''"
  by (simp add: prepare_simps)

lemma prepare_paren: "prepare ''(2 + 3) * 4'' self = ''(2 + 3) * 4''"
  by (simp add: prepare_simps)

lemma prepare_pow: "prepare ''2 ^ 3 ^ 2'' self = ''2 ** 3 ** 2''"
  by (simp add: prepare_simps)

lemma prepare_22: "prepare ''2 + 2'' self = ''2 + 2''"
  by (simp add: prepare_simps)

lemma prepare_ans: "last_result self = PInt 4 \<Longrightarrow> prepare ''ans * 10'' self = ''4 * 10''"
  by (simp add: prepare_simps str_int_4)




lemma prepare_sqrt4: "memory self = PInt 0 \<Longrightarrow> prepare ''sqrt(4)'' self = ''0ath.sqrt(4)''"
  by (simp add: prepare_simps str_int_0)

lemma prepare_sqrt4_5: "memory self = PFloat (Finite 5) \<Longrightarrow> prepare ''sqrt(4)'' self = ''5.0ath.sqrt(4)''"
  by (simp add: prepare_simps str_5)

lemma prepare_sqrt_neg: "memory self = PInt 0 \<Longrightarrow> prepare ''sqrt(-1)'' self = ''0ath.sqrt(-1)''"
  by (simp add: prepare_simps str_int_0)

lemma prepare_log0: "memory self = PInt 0 \<Longrightarrow> prepare ''log(0)'' self = ''0ath.log10(0)''"
  by (simp add: prepare_simps str_int_0)

lemma prepare_ln0: "memory self = PInt 0 \<Longrightarrow> prepare ''ln(0)'' self = ''0ath.log(0)''"
  by (simp add: prepare_simps str_int_0)






subsection \<open>Texts the rewriting leaves alone\<close>






section \<open>The claims\<close>



text \<open>
  C10. The four memory operations assign to \<open>memory\<close> only: history and last result are
  the same before and after the call, for every engine and every argument (also
  where \<open>+=\<close> or \<open>-=\<close> raises).
\<close>

theorem memory_operations_frame:
  "history (store_in_memory v self) = history self
   \<and> last_result (store_in_memory v self) = last_result self
   \<and> history (snd (add_to_memory v self)) = history self
   \<and> last_result (snd (add_to_memory v self)) = last_result self
   \<and> history (snd (subtract_from_memory v self)) = history self
   \<and> last_result (snd (subtract_from_memory v self)) = last_result self
   \<and> history (clear_memory self) = history self
   \<and> last_result (clear_memory self) = last_result self"
  by (simp add: store_in_memory_def add_to_memory_def subtract_from_memory_def clear_memory_def
      split: sum.splits)

lemma eval_neg_pow: "py_eval ''-2 ** 2'' = Return (PInt (- 4))"
  by (simp add: eval_simps)

lemma eval_sub_sub: "py_eval ''7 - 4 - 2'' = Return (PInt 1)"
  by (simp add: eval_simps)

lemma prepare_neg_pow: "prepare ''-2 ^ 2'' self = ''-2 ** 2''"
  by (simp add: prepare_simps)

lemma prepare_sub_sub: "prepare ''7 - 4 - 2'' self = ''7 - 4 - 2''"
  by (simp add: prepare_simps)

lemma additive_cases:
  "additive t = Some b \<Longrightarrow> (t = PLUS \<and> b = Add) \<or> (t = MINUS \<and> b = Sub)"
  by (auto simp: additive_def split: if_splits)

lemma multiplicative_cases:
  "multiplicative t = Some b \<Longrightarrow>
     (t = STAR \<and> b = Mult) \<or> (t = SLASH \<and> b = Div)
     \<or> (t = DOUBLESLASH \<and> b = FloorDiv) \<or> (t = PERCENT \<and> b = Mod)"
  by (auto simp: multiplicative_def split: if_splits)

lemmas parse_simps = parse_def parse_rule_def bind_def additive_def multiplicative_def unary_def
  atom_def name_of_def expect_rpar_def descend_numeral

lemma parse_add_add:
  "additive t1 = Some o1 \<Longrightarrow> additive t2 = Some o2 \<Longrightarrow>
   parse [NUMBER a, t1, NUMBER b, t2, NUMBER c]
     = Return (BinOp (BinOp (Constant a) o1 (Constant b)) o2 (Constant c))"
  by (auto dest!: additive_cases simp: parse_simps)

lemma parse_mul_mul:
  "multiplicative t1 = Some o1 \<Longrightarrow> multiplicative t2 = Some o2 \<Longrightarrow>
   parse [NUMBER a, t1, NUMBER b, t2, NUMBER c]
     = Return (BinOp (BinOp (Constant a) o1 (Constant b)) o2 (Constant c))"
  by (auto dest!: multiplicative_cases simp: parse_simps)

lemma parse_add_mul:
  "additive t1 = Some o1 \<Longrightarrow> multiplicative t2 = Some o2 \<Longrightarrow>
   parse [NUMBER a, t1, NUMBER b, t2, NUMBER c]
     = Return (BinOp (Constant a) o1 (BinOp (Constant b) o2 (Constant c)))"
  by (auto dest!: additive_cases multiplicative_cases simp: parse_simps)

lemma parse_mul_add:
  "multiplicative t1 = Some o1 \<Longrightarrow> additive t2 = Some o2 \<Longrightarrow>
   parse [NUMBER a, t1, NUMBER b, t2, NUMBER c]
     = Return (BinOp (BinOp (Constant a) o1 (Constant b)) o2 (Constant c))"
  by (auto dest!: additive_cases multiplicative_cases simp: parse_simps)

lemma parse_pow_pow:
  "parse [NUMBER a, DOUBLESTAR, NUMBER b, DOUBLESTAR, NUMBER c]
     = Return (BinOp (Constant a) PowOp (BinOp (Constant b) PowOp (Constant c)))"
  by (simp add: parse_simps)

lemma parse_neg_pow:
  "parse [MINUS, NUMBER a, DOUBLESTAR, NUMBER b]
     = Return (UnaryOp USub (BinOp (Constant a) PowOp (Constant b)))"
  by (simp add: parse_simps)

lemma parse_pow_neg:
  "parse [NUMBER a, DOUBLESTAR, MINUS, NUMBER b]
     = Return (BinOp (Constant a) PowOp (UnaryOp USub (Constant b)))"
  by (simp add: parse_simps)

lemma parse_neg_mul:
  "multiplicative t1 = Some o1 \<Longrightarrow>
   parse [MINUS, NUMBER a, t1, NUMBER b]
     = Return (BinOp (UnaryOp USub (Constant a)) o1 (Constant b))"
  by (auto dest!: multiplicative_cases simp: parse_simps)

lemma parse_mul_pow:
  "multiplicative t1 = Some o1 \<Longrightarrow>
   parse [NUMBER a, t1, NUMBER b, DOUBLESTAR, NUMBER c]
     = Return (BinOp (Constant a) o1 (BinOp (Constant b) PowOp (Constant c)))"
  by (auto dest!: multiplicative_cases simp: parse_simps)

lemma parse_paren:
  "additive t1 = Some o1 \<Longrightarrow> multiplicative t2 = Some o2 \<Longrightarrow>
   parse [LPAR, NUMBER a, t1, NUMBER b, RPAR, t2, NUMBER c]
     = Return (BinOp (BinOp (Constant a) o1 (Constant b)) o2 (Constant c))"
  by (auto dest!: additive_cases multiplicative_cases simp: parse_simps)

lemmas value_simps = bind_def apply_binop_def apply_unop_def lift_def py_add_def py_sub_def py_mul_def

text \<open>
  C5, as stated, fails: the stated grammar puts unary minus above \<open>^\<close>, which makes
  \<open>-2 ^ 2\<close> the square of \<open>-2\<close>, 4; the code returns \<open>-(2 ^ 2) = -4\<close>.
\<close>

theorem unary_minus_above_power_counterexample:
  "evaluate ''-2 ^ 2'' init
     = Some (Inr (PInt (- 4)), init\<lparr>history := [(''-2 ** 2'', PInt (- 4))], last_result := PInt (- 4)\<rparr>)
   \<and> \<not> py_eq (PInt (- 4)) (PFloat (Finite 4)) \<and> (- 2 :: int) ^ 2 = 4"
  by (simp add: evaluate_def prepare_neg_pow eval_neg_pow record_result_def init_def py_eq_def
      fl_eq_int_def)

text \<open>
  C5, amended. Precedence and associativity are those of Python's expression grammar,
  \<open>^\<close> being rewritten to \<open>**\<close>: \<open>**\<close> is right-associative and binds tighter than a unary
  minus on its left (a unary minus in the exponent belongs to the exponent); the unary
  minus binds tighter than \<open>* / // %\<close>, which are left-associative and bind tighter than
  \<open>+ -\<close>, which are left-associative; parentheses override. This holds of the syntax
  tree for all operands and all operators of a class, and of the values for all \<open>int\<close>
  operands. On every engine \<open>2 + 3 * 4\<close> returns 14, \<open>(2 + 3) * 4\<close> returns 20,
  \<open>2 ^ 3 ^ 2\<close> returns \<open>2 ^ (3 ^ 2) = 512\<close>, \<open>7 - 4 - 2\<close> returns 1 and \<open>-2 ^ 2\<close> returns
  \<open>-4\<close>; the results are Python \<open>int\<close>s, equal to the floats 14.0, 20.0 and 512.0.
\<close>

theorem python_precedence_and_associativity:
  "(additive ta = Some oa \<and> additive tb = Some ob \<longrightarrow>
      parse [NUMBER a, ta, NUMBER b, tb, NUMBER c]
        = Return (BinOp (BinOp (Constant a) oa (Constant b)) ob (Constant c)))
   \<and> (multiplicative tm = Some om \<and> multiplicative tn = Some on \<longrightarrow>
      parse [NUMBER a, tm, NUMBER b, tn, NUMBER c]
        = Return (BinOp (BinOp (Constant a) om (Constant b)) on (Constant c)))
   \<and> (additive ta = Some oa \<and> multiplicative tm = Some om \<longrightarrow>
      parse [NUMBER a, ta, NUMBER b, tm, NUMBER c]
        = Return (BinOp (Constant a) oa (BinOp (Constant b) om (Constant c))))
   \<and> (multiplicative tm = Some om \<and> additive ta = Some oa \<longrightarrow>
      parse [NUMBER a, tm, NUMBER b, ta, NUMBER c]
        = Return (BinOp (BinOp (Constant a) om (Constant b)) oa (Constant c)))
   \<and> (additive ta = Some oa \<and> multiplicative tm = Some om \<longrightarrow>
      parse [LPAR, NUMBER a, ta, NUMBER b, RPAR, tm, NUMBER c]
        = Return (BinOp (BinOp (Constant a) oa (Constant b)) om (Constant c)))
   \<and> (multiplicative tm = Some om \<longrightarrow>
      parse [NUMBER a, tm, NUMBER b, DOUBLESTAR, NUMBER c]
        = Return (BinOp (Constant a) om (BinOp (Constant b) PowOp (Constant c))))
   \<and> (multiplicative tm = Some om \<longrightarrow>
      parse [MINUS, NUMBER a, tm, NUMBER b]
        = Return (BinOp (UnaryOp USub (Constant a)) om (Constant b)))
   \<and> parse [NUMBER a, DOUBLESTAR, NUMBER b, DOUBLESTAR, NUMBER c]
       = Return (BinOp (Constant a) PowOp (BinOp (Constant b) PowOp (Constant c)))
   \<and> parse [MINUS, NUMBER a, DOUBLESTAR, NUMBER b]
       = Return (UnaryOp USub (BinOp (Constant a) PowOp (Constant b)))
   \<and> parse [NUMBER a, DOUBLESTAR, MINUS, NUMBER b]
       = Return (BinOp (Constant a) PowOp (UnaryOp USub (Constant b)))
   \<and> bind (parse [NUMBER (PInt i), PLUS, NUMBER (PInt j), STAR, NUMBER (PInt k)]) eval_expr
       = Return (PInt (i + j * k))
   \<and> bind (parse [LPAR, NUMBER (PInt i), PLUS, NUMBER (PInt j), RPAR, STAR, NUMBER (PInt k)]) eval_expr
       = Return (PInt ((i + j) * k))
   \<and> bind (parse [NUMBER (PInt i), MINUS, NUMBER (PInt j), MINUS, NUMBER (PInt k)]) eval_expr
       = Return (PInt (i - j - k))
   \<and> (0 \<le> j \<and> 0 \<le> k \<longrightarrow>
      bind (parse [NUMBER (PInt i), DOUBLESTAR, NUMBER (PInt j), DOUBLESTAR, NUMBER (PInt k)]) eval_expr
        = Return (PInt (i ^ nat (j ^ nat k))))
   \<and> (0 \<le> j \<longrightarrow>
      bind (parse [MINUS, NUMBER (PInt i), DOUBLESTAR, NUMBER (PInt j)]) eval_expr
        = Return (PInt (- (i ^ nat j))))
   \<and> map_option fst (evaluate ''2 + 3 * 4'' self) = Some (Inr (PInt 14))
   \<and> map_option fst (evaluate ''(2 + 3) * 4'' self) = Some (Inr (PInt 20))
   \<and> map_option fst (evaluate ''2 ^ 3 ^ 2'' self) = Some (Inr (PInt 512))
   \<and> map_option fst (evaluate ''7 - 4 - 2'' self) = Some (Inr (PInt 1))
   \<and> map_option fst (evaluate ''-2 ^ 2'' self) = Some (Inr (PInt (- 4)))
   \<and> py_eq (PInt 14) (PFloat (Finite 14)) \<and> py_eq (PInt 20) (PFloat (Finite 20))
   \<and> py_eq (PInt 512) (PFloat (Finite 512)) \<and> (512::int) = 2 ^ (3 ^ 2)"
proof -
  have t1: "additive ta = Some oa \<and> additive tb = Some ob \<longrightarrow>
      parse [NUMBER a, ta, NUMBER b, tb, NUMBER c]
        = Return (BinOp (BinOp (Constant a) oa (Constant b)) ob (Constant c))"
    using parse_add_add by blast
  have t2: "multiplicative tm = Some om \<and> multiplicative tn = Some on \<longrightarrow>
      parse [NUMBER a, tm, NUMBER b, tn, NUMBER c]
        = Return (BinOp (BinOp (Constant a) om (Constant b)) on (Constant c))"
    using parse_mul_mul by blast
  have t3: "additive ta = Some oa \<and> multiplicative tm = Some om \<longrightarrow>
      parse [NUMBER a, ta, NUMBER b, tm, NUMBER c]
        = Return (BinOp (Constant a) oa (BinOp (Constant b) om (Constant c)))"
    using parse_add_mul by blast
  have t4: "multiplicative tm = Some om \<and> additive ta = Some oa \<longrightarrow>
      parse [NUMBER a, tm, NUMBER b, ta, NUMBER c]
        = Return (BinOp (BinOp (Constant a) om (Constant b)) oa (Constant c))"
    using parse_mul_add by blast
  have t5: "additive ta = Some oa \<and> multiplicative tm = Some om \<longrightarrow>
      parse [LPAR, NUMBER a, ta, NUMBER b, RPAR, tm, NUMBER c]
        = Return (BinOp (BinOp (Constant a) oa (Constant b)) om (Constant c))"
    using parse_paren by blast
  have t6: "multiplicative tm = Some om \<longrightarrow>
      parse [NUMBER a, tm, NUMBER b, DOUBLESTAR, NUMBER c]
        = Return (BinOp (Constant a) om (BinOp (Constant b) PowOp (Constant c)))"
    using parse_mul_pow by blast
  have t7: "multiplicative tm = Some om \<longrightarrow>
      parse [MINUS, NUMBER a, tm, NUMBER b]
        = Return (BinOp (UnaryOp USub (Constant a)) om (Constant b))"
    using parse_neg_mul by blast
  have pw: "0 \<le> j \<and> 0 \<le> k \<longrightarrow>
      bind (parse [NUMBER (PInt i), DOUBLESTAR, NUMBER (PInt j), DOUBLESTAR, NUMBER (PInt k)]) eval_expr
        = Return (PInt (i ^ nat (j ^ nat k)))"
    by (simp add: parse_pow_pow value_simps)
  have ng: "0 \<le> j \<longrightarrow>
      bind (parse [MINUS, NUMBER (PInt i), DOUBLESTAR, NUMBER (PInt j)]) eval_expr
        = Return (PInt (- (i ^ nat j)))"
    by (simp add: parse_neg_pow value_simps)
  have vals:
    "bind (parse [NUMBER (PInt i), PLUS, NUMBER (PInt j), STAR, NUMBER (PInt k)]) eval_expr
       = Return (PInt (i + j * k))"
    "bind (parse [LPAR, NUMBER (PInt i), PLUS, NUMBER (PInt j), RPAR, STAR, NUMBER (PInt k)]) eval_expr
       = Return (PInt ((i + j) * k))"
    "bind (parse [NUMBER (PInt i), MINUS, NUMBER (PInt j), MINUS, NUMBER (PInt k)]) eval_expr
       = Return (PInt (i - j - k))"
    by (simp_all add: parse_simps value_simps)
  have texts:
    "map_option fst (evaluate ''2 + 3 * 4'' self) = Some (Inr (PInt 14))"
    "map_option fst (evaluate ''(2 + 3) * 4'' self) = Some (Inr (PInt 20))"
    "map_option fst (evaluate ''2 ^ 3 ^ 2'' self) = Some (Inr (PInt 512))"
    "map_option fst (evaluate ''7 - 4 - 2'' self) = Some (Inr (PInt 1))"
    "map_option fst (evaluate ''-2 ^ 2'' self) = Some (Inr (PInt (- 4)))"
    by (simp_all add: evaluate_def prepare_prec prepare_paren prepare_pow prepare_sub_sub
        prepare_neg_pow eval_prec eval_paren eval_pow eval_sub_sub eval_neg_pow record_result_def)
  have eqs: "py_eq (PInt 14) (PFloat (Finite 14))" "py_eq (PInt 20) (PFloat (Finite 20))"
    "py_eq (PInt 512) (PFloat (Finite 512))" "(512::int) = 2 ^ (3 ^ 2)"
    by (simp_all add: py_eq_def fl_eq_int_def)
  show ?thesis
    by (intro conjI)
      (fact t1 t2 t3 t4 t5 t6 t7 pw ng vals texts eqs parse_pow_pow parse_neg_pow parse_pow_neg)+
qed

theorem python_precedence_and_associativity_witness:
  "additive MINUS = Some Sub \<and> additive PLUS = Some Add
   \<and> multiplicative SLASH = Some Div \<and> multiplicative STAR = Some Mult
   \<and> parse [NUMBER (PInt 7), MINUS, NUMBER (PInt 4), PLUS, NUMBER (PInt 2)]
       = Return (BinOp (BinOp (Constant (PInt 7)) Sub (Constant (PInt 4))) Add (Constant (PInt 2)))
   \<and> parse [NUMBER (PInt 7), SLASH, NUMBER (PInt 4), STAR, NUMBER (PInt 2)]
       = Return (BinOp (BinOp (Constant (PInt 7)) Div (Constant (PInt 4))) Mult (Constant (PInt 2)))
   \<and> parse [NUMBER (PInt 7), MINUS, NUMBER (PInt 4), SLASH, NUMBER (PInt 2)]
       = Return (BinOp (Constant (PInt 7)) Sub (BinOp (Constant (PInt 4)) Div (Constant (PInt 2))))
   \<and> parse [NUMBER (PInt 7), SLASH, NUMBER (PInt 4), MINUS, NUMBER (PInt 2)]
       = Return (BinOp (BinOp (Constant (PInt 7)) Div (Constant (PInt 4))) Sub (Constant (PInt 2)))
   \<and> parse [LPAR, NUMBER (PInt 7), MINUS, NUMBER (PInt 4), RPAR, SLASH, NUMBER (PInt 2)]
       = Return (BinOp (BinOp (Constant (PInt 7)) Sub (Constant (PInt 4))) Div (Constant (PInt 2)))
   \<and> parse [NUMBER (PInt 7), SLASH, NUMBER (PInt 4), DOUBLESTAR, NUMBER (PInt 2)]
       = Return (BinOp (Constant (PInt 7)) Div (BinOp (Constant (PInt 4)) PowOp (Constant (PInt 2))))
   \<and> parse [MINUS, NUMBER (PInt 7), SLASH, NUMBER (PInt 4)]
       = Return (BinOp (UnaryOp USub (Constant (PInt 7))) Div (Constant (PInt 4)))
   \<and> (0::int) \<le> 3 \<and> (0::int) \<le> 2
   \<and> bind (parse [NUMBER (PInt 2), DOUBLESTAR, NUMBER (PInt 3), DOUBLESTAR, NUMBER (PInt 2)]) eval_expr
       = Return (PInt (2 ^ nat (3 ^ nat 2)))
   \<and> bind (parse [MINUS, NUMBER (PInt 2), DOUBLESTAR, NUMBER (PInt 3)]) eval_expr
       = Return (PInt (- (2 ^ nat 3)))"
proof -
  have ops: "additive MINUS = Some Sub" "additive PLUS = Some Add"
    "multiplicative SLASH = Some Div" "multiplicative STAR = Some Mult"
    by (simp_all add: additive_def multiplicative_def)
  have nonneg: "(0::int) \<le> 3" "(0::int) \<le> 2"
    by simp_all
  show ?thesis
    using ops nonneg
      python_precedence_and_associativity
        [of MINUS Sub PLUS Add "PInt 7" "PInt 4" "PInt 2" SLASH Div STAR Mult 2 3 2 init]
    by blast
qed

text \<open>
  C8. \<open>ans\<close> is replaced by the text of the last result before evaluation: on every
  engine \<open>2 + 2\<close> returns 4, and \<open>ans * 10\<close> evaluated next returns 40.
\<close>

theorem ans_chaining:
  "evaluate ''2 + 2'' self
     = Some (Inr (PInt 4), self\<lparr>history := history self @ [(''2 + 2'', PInt 4)], last_result := PInt 4\<rparr>)
   \<and> evaluate ''ans * 10'' (self\<lparr>history := history self @ [(''2 + 2'', PInt 4)], last_result := PInt 4\<rparr>)
     = Some (Inr (PInt 40),
         self\<lparr>history := history self @ [(''2 + 2'', PInt 4), (''4 * 10'', PInt 40)], last_result := PInt 40\<rparr>)
   \<and> py_eq (PInt 4) (PFloat (Finite 4)) \<and> py_eq (PInt 40) (PFloat (Finite 40))"
  by (simp add: evaluate_def prepare_22 prepare_ans eval_22 eval_40 record_result_def py_eq_def
      fl_eq_int_def)

text \<open>
  C2. The substitution of \<open>m\<close> is a plain text replacement made after the function
  names were rewritten to \<open>math.\<close> calls, so it changes the \<open>m\<close> of \<open>math\<close>: \<open>sqrt(4)\<close>
  becomes \<open>0ath.sqrt(4)\<close> on a new engine (\<open>5.0ath.sqrt(4)\<close> with 5.0 in memory), which
  is not an expression, and the evaluation fails.
\<close>

theorem sqrt_corrupted_by_memory_substitution:
  "prepare ''sqrt(4)'' init = ''0ath.sqrt(4)''
   \<and> evaluate ''sqrt(4)'' init = Some (Inl (ValueError SyntaxError), init)
   \<and> prepare ''sqrt(4)'' (store_in_memory (PFloat (Finite 5)) init) = ''5.0ath.sqrt(4)''
   \<and> evaluate ''sqrt(4)'' (store_in_memory (PFloat (Finite 5)) init)
       = Some (Inl (ValueError SyntaxError), store_in_memory (PFloat (Finite 5)) init)"
  by (simp add: evaluate_def prepare_sqrt4 prepare_sqrt4_5 eval_sqrt4 eval_5ath record_result_def
      init_def store_in_memory_def)

text \<open>
  C3. \<open>sqrt(-1)\<close>, \<open>log(0)\<close> and \<open>ln(0)\<close> fail, but with the syntax error of the corrupted
  text (\<open>0ath.sqrt(-1)\<close>), not with a domain error; \<open>1/0\<close> fails with the division by
  zero. None of the failures changes the engine.
\<close>

theorem domain_errors_are_syntax_errors:
  "evaluate ''sqrt(-1)'' init = Some (Inl (ValueError SyntaxError), init)
   \<and> prepare ''sqrt(-1)'' init = ''0ath.sqrt(-1)''
   \<and> evaluate ''log(0)'' init = Some (Inl (ValueError SyntaxError), init)
   \<and> evaluate ''ln(0)'' init = Some (Inl (ValueError SyntaxError), init)
   \<and> evaluate ''1/0'' init = Some (Inl (ValueError ZeroDivisionError), init)"
  by (simp add: evaluate_def prepare_sqrt_neg prepare_log0 prepare_ln0 prepare_div0 eval_sqrt_neg
      eval_log0 eval_ln0 eval_div0 record_result_def init_def)











end
